theory Spec2Isabelle
  imports Main "HOL-Library.Multiset"
begin

section \<open>The titlebar part of the workbench\<close>

text \<open>
  A shallow embedding of \<^verbatim>\<open>src/vs/workbench/browser/parts/titlebar/titlebarPart.ts\<close>.
  The class \<^verbatim>\<open>TitlebarPart\<close> becomes a record of its fields, every method a function
  from the state before the call to the state after it, and every call into the DOM or
  into a listener registration is also appended to a trace of effects, so that the order
  and the number of such calls can be stated.

  JavaScript strings are modelled as \<^typ>\<open>string\<close>. A character outside ASCII is written
  as the bytes of its UTF-8 encoding; the file only ever compares strings, tests them for
  emptiness, concatenates them and splits them at the ASCII character \<^verbatim>\<open>/\<close>, and all of
  these agree on UTF-8 bytes and on UTF-16 code units.

  Left out are \<^verbatim>\<open>layout\<close>, which only rescales the font of the title container, and the
  handlers for double click, context menu and mouse down, which read the state (the
  context menu through \<^verbatim>\<open>getContextMenuActions\<close>) and write none of it.
\<close>

subsection \<open>Strings, arrays and paths\<close>

text \<open>\<^verbatim>\<open>String.prototype.split\<close> with a separator of one character.\<close>

fun str_split :: "char \<Rightarrow> string \<Rightarrow> string list" where
  "str_split c [] = [[]]"
| "str_split c (x # xs) =
     (if x = c then [] # str_split c xs
      else (case str_split c xs of
              [] \<Rightarrow> [[x]]
            | w # ws \<Rightarrow> (x # w) # ws))"

text \<open>\<^verbatim>\<open>Array.prototype.join\<close>.\<close>

fun arr_join :: "string \<Rightarrow> string list \<Rightarrow> string" where
  "arr_join s [] = []"
| "arr_join s [x] = x"
| "arr_join s (x # y # ys) = x @ s @ arr_join s (y # ys)"

text \<open>\<^verbatim>\<open>Array.prototype.slice(0, n)\<close>: the first \<open>n\<close> elements, all of them when \<open>n\<close> is
  beyond the end.\<close>

definition arr_slice0 :: "nat \<Rightarrow> 'a list \<Rightarrow> 'a list" where
  "arr_slice0 n xs = take n xs"

text \<open>
  Modelled from the spec: \<^verbatim>\<open>paths.sep\<close>, \<^verbatim>\<open>paths.basename\<close> and \<^verbatim>\<open>paths.dirname\<close> of
  \<^verbatim>\<open>vs/base/common/paths\<close> are not under src/. The spec splits the represented path
  "into segments" and labels an action "with the segment's base name (using the parent
  directory's name when the prefix excludes the final/file segment)"; its example path
  \<^verbatim>\<open>/a/b/c.txt\<close> fixes the separator as the forward slash. The base name of a path is
  what follows its last separator, trailing separators being dropped first (a path with no
  separator is its own base name); the directory name is what precedes the last separator,
  \<^verbatim>\<open>/\<close> for an entry of the root and \<^verbatim>\<open>.\<close> for a path with no separator.
\<close>

definition sep_char :: char where
  "sep_char = CHR ''/''"

definition sep :: string where
  "sep = [sep_char]"

definition basename :: "string \<Rightarrow> string" where
  "basename p = rev (takeWhile (\<lambda>c. c \<noteq> sep_char) (dropWhile (\<lambda>c. c = sep_char) (rev p)))"

definition dirname :: "string \<Rightarrow> string" where
  "dirname p =
     (if sep_char \<notin> set p then ''.''
      else (let d = rev (tl (dropWhile (\<lambda>c. c \<noteq> sep_char) (rev p)))
            in if d = [] then sep else d))"

subsection \<open>The context menu of the title\<close>

text \<open>\<^verbatim>\<open>ShowItemInFolderAction\<close>: the path it reveals and its label (its id is a constant).\<close>

datatype action = ShowItemInFolderAction (path: string) (label: string)

text \<open>
  The body of the loop \<^verbatim>\<open>for (let i = segments.length; i > 0; i--)\<close> of
  \<^verbatim>\<open>getContextMenuActions\<close>, for one value of \<open>i\<close>.
\<close>

definition segment_action :: "string list \<Rightarrow> nat \<Rightarrow> action" where
  "segment_action segments i =
     (let isFile = (i = length segments);
          pathOffset = (if \<not> isFile then i + 1 else i);
          path = arr_join sep (arr_slice0 pathOffset segments);
          label = (if \<not> isFile then basename (dirname path) else basename path)
      in ShowItemInFolderAction path (if label = [] then sep else label))"

text \<open>The loop: \<open>i\<close> counts down to 1, each action is pushed at the end of \<open>actions\<close>.\<close>

fun segment_loop :: "string list \<Rightarrow> nat \<Rightarrow> action list \<Rightarrow> action list" where
  "segment_loop segments 0 actions = actions"
| "segment_loop segments (Suc k) actions =
     segment_loop segments k (actions @ [segment_action segments (Suc k)])"

subsection \<open>State\<close>

text \<open>
  The listeners of \<^verbatim>\<open>activeEditorListeners\<close>: the subscription to \<^verbatim>\<open>onDidChangeDirty\<close> and
  the one to \<^verbatim>\<open>onDidChangeLabel\<close> of an editor input, the input named by a number.
\<close>

datatype listener = DirtyListener nat | LabelListener nat

text \<open>
  What the part does to the world outside its own fields: a write of
  \<^verbatim>\<open>window.document.title\<close>, a call of \<^verbatim>\<open>this.title.text(...)\<close>, the registration of a
  listener on an editor input, the disposal of one, and
  \<^verbatim>\<open>windowService.setRepresentedFilename\<close>.
\<close>

datatype effect =
    DocumentTitle string
  | TitleText string
  | Attach listener
  | Dispose listener
  | WindowRepresentedFilename string

text \<open>The inline style of an element: a property has a value, or none (\<^verbatim>\<open>null\<close>).\<close>

type_synonym styles = "string \<Rightarrow> string option"

text \<open>
  The fields of \<^verbatim>\<open>TitlebarPart\<close>. A field that is declared without initialiser is
  \<^verbatim>\<open>undefined\<close> until assigned: \<open>None\<close>. The builder \<^verbatim>\<open>this.title\<close> is represented by
  the text of its element. \<open>container\<close> is the element \<^verbatim>\<open>getContainer()\<close> of the base
  class returns, \<open>document_title\<close> is \<^verbatim>\<open>window.document.title\<close>, and \<open>trace\<close> lists the
  effects so far, oldest first.
\<close>

record titlebar =
  title :: "string option"
  pendingTitle :: "string option"
  representedFileName :: "string option"
  isInactive :: "bool option"
  titleTemplate :: "string option"
  isPure :: bool
  activeEditorListeners :: "listener list"
  container :: "styles option"
  document_title :: string
  trace :: "effect list"

text \<open>\<^verbatim>\<open>getContextMenuActions\<close>; an unset or empty \<^verbatim>\<open>representedFileName\<close> is falsy.\<close>

definition getContextMenuActions :: "titlebar \<Rightarrow> action list" where
  "getContextMenuActions s =
     (case representedFileName s of
        None \<Rightarrow> []
      | Some fileName \<Rightarrow>
          if fileName = [] then []
          else (let segments = str_split sep_char fileName
                in segment_loop segments (length segments) []))"

subsection \<open>Setting the title\<close>

text \<open>\<^verbatim>\<open>setTitle\<close>: the native title first, then the element if there is one.\<close>

definition setTitle :: "string \<Rightarrow> titlebar \<Rightarrow> titlebar" where
  "setTitle t s =
     (let s1 = s\<lparr>document_title := t, trace := trace s @ [DocumentTitle t]\<rparr>
      in case title s1 of
           Some _ \<Rightarrow> s1\<lparr>title := Some t, trace := trace s1 @ [TitleText t]\<rparr>
         | None \<Rightarrow> s1\<lparr>pendingTitle := Some t\<rparr>)"

text \<open>
  \<^verbatim>\<open>createContentArea\<close>, as far as the title goes: a new element, whose text is empty,
  and the pending title written to it when there is one and it is not the empty string
  (\<^verbatim>\<open>if (this.pendingTitle)\<close>). The handlers it installs for double click, context menu
  and mouse down touch no field.
\<close>

definition createContentArea :: "titlebar \<Rightarrow> titlebar" where
  "createContentArea s =
     (let s1 = s\<lparr>title := Some []\<rparr>
      in case pendingTitle s1 of
           None \<Rightarrow> s1
         | Some p \<Rightarrow>
             if p \<noteq> [] then s1\<lparr>title := Some p, trace := trace s1 @ [TitleText p]\<rparr>
             else s1)"

text \<open>\<^verbatim>\<open>setRepresentedFilename\<close>.\<close>

definition setRepresentedFilename :: "string \<Rightarrow> titlebar \<Rightarrow> titlebar" where
  "setRepresentedFilename p s =
     s\<lparr>representedFileName := Some p, trace := trace s @ [WindowRepresentedFilename p]\<rparr>"

subsection \<open>The services the part is given\<close>

datatype Verbosity = SHORT | MEDIUM | LONG

text \<open>
  An editor input, as far as the part looks at it: which object it is, whether it is an
  instance of the class \<^verbatim>\<open>EditorInput\<close>, and what \<^verbatim>\<open>getTitle\<close> and \<^verbatim>\<open>isDirty\<close> return.
\<close>

record editor_input =
  input_id :: nat
  instanceof_EditorInput :: bool
  getTitle :: "Verbosity \<Rightarrow> string"
  isDirty :: bool

record editor =
  input :: "editor_input option"

record uri =
  fsPath :: string

record workspace =
  name :: string
  configuration :: "uri option"
  folders :: "uri list"

datatype WorkbenchState = EMPTY | FOLDER | WORKSPACE

text \<open>The colour identifiers imported from \<^verbatim>\<open>vs/workbench/common/theme\<close>.\<close>

datatype color_id =
    TITLE_BAR_ACTIVE_FOREGROUND
  | TITLE_BAR_INACTIVE_FOREGROUND
  | TITLE_BAR_ACTIVE_BACKGROUND
  | TITLE_BAR_INACTIVE_BACKGROUND
  | TITLE_BAR_BORDER

text \<open>
  A value of the object handed to \<^verbatim>\<open>labels.template\<close>: a string, a separator
  \<^verbatim>\<open>{ label: ... }\<close>, or \<^verbatim>\<open>null\<close>/\<^verbatim>\<open>undefined\<close>.
\<close>

datatype tvalue = Str string | Separator string | Null

text \<open>
  What the injected services and the imported helpers answer at the moment of a call.
  None of them is under src/, so each is a parameter: the configuration value of
  \<^verbatim>\<open>window.title\<close>; the editor service; the workspace context service; the helpers
  \<^verbatim>\<open>toResource\<close> (with the options of its one call), \<^verbatim>\<open>labels.getPathLabel\<close> (which is
  also called with an undefined resource and whose result is guarded by \<^verbatim>\<open>|| ''\<close>, so it
  may answer \<^verbatim>\<open>null\<close>) and \<^verbatim>\<open>labels.template\<close>; the environment service; \<^verbatim>\<open>getColor\<close>
  of the base class under the current theme; and \<^verbatim>\<open>super.updateStyles()\<close>, the hook of
  the base class, which can style the container the base class holds but reaches no
  private field of the part.
\<close>

record env =
  lookup_window_title :: string
  getActiveEditor :: "editor option"
  getActiveEditorInput :: "editor_input option"
  getWorkspace :: workspace
  getWorkbenchState :: WorkbenchState
  getWorkspaceFolder :: "uri option \<Rightarrow> uri option"
  toResource :: "editor_input option \<Rightarrow> uri option"
  getPathLabel :: "uri option \<Rightarrow> string option"
  template :: "string option \<Rightarrow> (string \<times> tvalue) list \<Rightarrow> string"
  appNameLong :: string
  isExtensionDevelopment :: bool
  getColor :: "color_id \<Rightarrow> string option"
  super_updateStyles :: "styles \<Rightarrow> styles"

subsection \<open>The window title\<close>

text \<open>
  The static strings. \<^verbatim>\<open>nls.localize\<close> is given its default message; \<^verbatim>\<open>TITLE_DIRTY\<close> is
  U+25CF and a space, \<^verbatim>\<open>TITLE_SEPARATOR\<close> is U+2014 between two spaces.
\<close>

definition NLS_UNSUPPORTED :: string where
  "NLS_UNSUPPORTED = ''[Unsupported]''"

definition NLS_EXTENSION_HOST :: string where
  "NLS_EXTENSION_HOST = ''[Extension Development Host]''"

definition TITLE_DIRTY :: string where
  "TITLE_DIRTY = [CHR 0xE2, CHR 0x97, CHR 0x8F, CHR '' '']"

definition TITLE_SEPARATOR :: string where
  "TITLE_SEPARATOR = [CHR '' '', CHR 0xE2, CHR 0x80, CHR 0x94, CHR '' '']"

text \<open>\<^verbatim>\<open>folders[0]\<close>: \<^verbatim>\<open>undefined\<close> on an empty array.\<close>

definition first_folder :: "workspace \<Rightarrow> uri option" where
  "first_folder w = (case folders w of [] \<Rightarrow> None | f # _ \<Rightarrow> Some f)"

text \<open>The folder resource computed at the head of \<^verbatim>\<open>doGetWindowTitle\<close>.\<close>

definition title_folder :: "env \<Rightarrow> uri option" where
  "title_folder e =
     (if getWorkbenchState e = FOLDER then first_folder (getWorkspace e)
      else getWorkspaceFolder e (toResource e (getActiveEditorInput e)))"

text \<open>
  The variables of \<^verbatim>\<open>doGetWindowTitle\<close> and the object literal built from them, in the
  order of the literal.
\<close>

definition template_values :: "env \<Rightarrow> (string \<times> tvalue) list" where
  "template_values e =
     (let input = getActiveEditorInput e;
          workspace = getWorkspace e;
          folder = title_folder e;
          activeEditorShort = (case input of Some i \<Rightarrow> getTitle i SHORT | None \<Rightarrow> []);
          activeEditorMedium =
            (case input of Some i \<Rightarrow> getTitle i MEDIUM | None \<Rightarrow> activeEditorShort);
          activeEditorLong =
            (case input of Some i \<Rightarrow> getTitle i LONG | None \<Rightarrow> activeEditorMedium);
          rootName = name workspace;
          rootPath =
            (case getPathLabel e
                    (case configuration workspace of
                       Some c \<Rightarrow> Some c
                     | None \<Rightarrow> first_folder workspace) of
               Some l \<Rightarrow> if l \<noteq> [] then l else []
             | None \<Rightarrow> []);
          folderName =
            (case folder of
               Some f \<Rightarrow> if basename (fsPath f) \<noteq> [] then basename (fsPath f) else fsPath f
             | None \<Rightarrow> []);
          folderPath =
            (case folder of
               Some f \<Rightarrow> (case getPathLabel e (Some f) of Some l \<Rightarrow> Str l | None \<Rightarrow> Null)
             | None \<Rightarrow> Str []);
          dirty =
            (case input of
               Some i \<Rightarrow> if isDirty i then TITLE_DIRTY else []
             | None \<Rightarrow> []);
          appName = appNameLong e;
          separator = TITLE_SEPARATOR
      in [(''activeEditorShort'', Str activeEditorShort),
          (''activeEditorLong'', Str activeEditorLong),
          (''activeEditorMedium'', Str activeEditorMedium),
          (''rootName'', Str rootName),
          (''rootPath'', Str rootPath),
          (''folderName'', Str folderName),
          (''folderPath'', folderPath),
          (''dirty'', Str dirty),
          (''appName'', Str appName),
          (''separator'', Separator separator)])"

definition doGetWindowTitle :: "env \<Rightarrow> titlebar \<Rightarrow> string" where
  "doGetWindowTitle e s = template e (titleTemplate s) (template_values e)"

definition getWindowTitle :: "env \<Rightarrow> titlebar \<Rightarrow> string" where
  "getWindowTitle e s =
     (let title0 = doGetWindowTitle e s;
          title1 = (if title0 = [] then appNameLong e else title0);
          title2 = (if \<not> isPure s then title1 @ '' '' @ NLS_UNSUPPORTED else title1);
          title3 = (if isExtensionDevelopment e
                    then NLS_EXTENSION_HOST @ '' - '' @ title2 else title2)
      in title3)"

subsection \<open>The handlers\<close>

text \<open>
  The three calls of \<^verbatim>\<open>container.style\<close> in \<^verbatim>\<open>updateStyles\<close>, given whether
  \<^verbatim>\<open>this.isInactive\<close> is truthy: the foreground and the background of the focus state,
  and a bottom border when the theme has a border colour, none (\<^verbatim>\<open>null\<close>) otherwise.
\<close>

definition title_styles :: "env \<Rightarrow> bool \<Rightarrow> styles \<Rightarrow> styles" where
  "title_styles e inactive c =
     (let titleBorder = getColor e TITLE_BAR_BORDER
      in c(''color'' := getColor e
             (if inactive then TITLE_BAR_INACTIVE_FOREGROUND else TITLE_BAR_ACTIVE_FOREGROUND),
           ''background-color'' := getColor e
             (if inactive then TITLE_BAR_INACTIVE_BACKGROUND else TITLE_BAR_ACTIVE_BACKGROUND),
           ''border-bottom'' :=
             (case titleBorder of
                Some b \<Rightarrow> if b \<noteq> [] then Some (''1px solid '' @ b) else None
              | None \<Rightarrow> None)))"

text \<open>
  \<^verbatim>\<open>updateStyles\<close>: the hook of the base class first; then the container is styled, when
  there is one (\<^verbatim>\<open>if (container)\<close>).
\<close>

definition updateStyles :: "env \<Rightarrow> titlebar \<Rightarrow> titlebar" where
  "updateStyles e s =
     (let s1 = s\<lparr>container := map_option (super_updateStyles e) (container s)\<rparr>
      in case container s1 of
           None \<Rightarrow> s1
         | Some c \<Rightarrow> s1\<lparr>container := Some (title_styles e (isInactive s1 = Some True) c)\<rparr>)"

definition onBlur :: "env \<Rightarrow> titlebar \<Rightarrow> titlebar" where
  "onBlur e s = updateStyles e (s\<lparr>isInactive := Some True\<rparr>)"

definition onFocus :: "env \<Rightarrow> titlebar \<Rightarrow> titlebar" where
  "onFocus e s = updateStyles e (s\<lparr>isInactive := Some False\<rparr>)"

definition onDidChangeWorkspaceFolders :: "env \<Rightarrow> titlebar \<Rightarrow> titlebar" where
  "onDidChangeWorkspaceFolders e s = setTitle (getWindowTitle e s) s"

definition onDidChangeWorkspaceName :: "env \<Rightarrow> titlebar \<Rightarrow> titlebar" where
  "onDidChangeWorkspaceName e s = setTitle (getWindowTitle e s) s"

text \<open>
  \<^verbatim>\<open>onConfigurationChanged(update?)\<close>; the optional parameter is \<open>None\<close> when the call
  passes no argument.
\<close>

definition onConfigurationChanged :: "env \<Rightarrow> bool option \<Rightarrow> titlebar \<Rightarrow> titlebar" where
  "onConfigurationChanged e update s =
     (let currentTitleTemplate = titleTemplate s;
          s1 = s\<lparr>titleTemplate := Some (lookup_window_title e)\<rparr>
      in if update = Some True \<and> currentTitleTemplate \<noteq> titleTemplate s1
         then setTitle (getWindowTitle e s1) s1
         else s1)"

text \<open>
  The listeners \<^verbatim>\<open>onEditorsChanged\<close> registers for an active input, and the active
  input it computes (\<^verbatim>\<open>activeEditor ? activeEditor.input : void 0\<close>).
\<close>

definition input_listeners :: "editor_input option \<Rightarrow> listener list" where
  "input_listeners activeInput =
     (case activeInput of
        None \<Rightarrow> []
      | Some i \<Rightarrow>
          if instanceof_EditorInput i
          then [DirtyListener (input_id i), LabelListener (input_id i)]
          else [])"

definition active_input :: "env \<Rightarrow> editor_input option" where
  "active_input e =
     (case getActiveEditor e of
        Some activeEditor \<Rightarrow> input activeEditor
      | None \<Rightarrow> None)"

text \<open>
  \<^verbatim>\<open>onEditorsChanged\<close>: \<^verbatim>\<open>dispose\<close> goes through the old listeners in order, the list is
  emptied, the title is set, and then the two listeners of the active input are
  registered and pushed, one after the other.
\<close>

definition onEditorsChanged :: "env \<Rightarrow> titlebar \<Rightarrow> titlebar" where
  "onEditorsChanged e s =
     (let s1 = s\<lparr>trace := trace s @ map Dispose (activeEditorListeners s)\<rparr>;
          s2 = s1\<lparr>activeEditorListeners := []\<rparr>;
          activeInput = active_input e;
          s3 = setTitle (getWindowTitle e s2) s2
      in case activeInput of
           None \<Rightarrow> s3
         | Some i \<Rightarrow>
             if instanceof_EditorInput i
             then (let s4 = s3\<lparr>activeEditorListeners :=
                                  activeEditorListeners s3 @ [DirtyListener (input_id i)],
                                trace := trace s3 @ [Attach (DirtyListener (input_id i))]\<rparr>
                   in s4\<lparr>activeEditorListeners :=
                            activeEditorListeners s4 @ [LabelListener (input_id i)],
                          trace := trace s4 @ [Attach (LabelListener (input_id i))]\<rparr>)
             else s3)"

text \<open>
  The constructor: the fields as declared, \<^verbatim>\<open>isPure\<close> and \<^verbatim>\<open>activeEditorListeners\<close> as
  assigned, then \<^verbatim>\<open>init\<close>, which reads the configuration. The two callbacks \<^verbatim>\<open>init\<close>
  hands to \<^verbatim>\<open>joinCreation()\<close> and to \<^verbatim>\<open>isPure()\<close>, and the listeners of
  \<^verbatim>\<open>registerListeners\<close>, run later: they are events below. The native title the window has
  at that time is \<open>d\<close>.
\<close>

definition init :: "env \<Rightarrow> titlebar \<Rightarrow> titlebar" where
  "init e s = onConfigurationChanged e None s"

definition construct :: "env \<Rightarrow> string \<Rightarrow> titlebar" where
  "construct e d =
     init e \<lparr>title = None, pendingTitle = None, representedFileName = None,
             isInactive = None, titleTemplate = None, isPure = True,
             activeEditorListeners = [], container = None, document_title = d,
             trace = []\<rparr>"

text \<open>The callback of the integrity check, given \<^verbatim>\<open>r.isPure\<close>.\<close>

definition onIntegrityChecked :: "env \<Rightarrow> bool \<Rightarrow> titlebar \<Rightarrow> titlebar" where
  "onIntegrityChecked e r_isPure s =
     (if \<not> r_isPure
      then (let s1 = s\<lparr>isPure := False\<rparr> in setTitle (getWindowTitle e s1) s1)
      else s)"

text \<open>
  Everything that can happen to the part after its construction: the events it listens
  to, the callbacks it has handed out, and the calls of its public methods.
\<close>

datatype event =
    WindowBlur
  | WindowFocus
  | DidUpdateConfiguration
  | EditorsChanged
  | DidChangeWorkspaceFolders
  | DidChangeWorkspaceName
  | CreationJoined
  | IntegrityChecked bool
  | ActiveInputChanged
  | SetTitle string
  | SetRepresentedFilename string
  | CreateContentArea

fun fire :: "env \<Rightarrow> event \<Rightarrow> titlebar \<Rightarrow> titlebar" where
  "fire e WindowBlur s = onBlur e s"
| "fire e WindowFocus s = onFocus e s"
| "fire e DidUpdateConfiguration s = onConfigurationChanged e (Some True) s"
| "fire e EditorsChanged s = onEditorsChanged e s"
| "fire e DidChangeWorkspaceFolders s = onDidChangeWorkspaceFolders e s"
| "fire e DidChangeWorkspaceName s = onDidChangeWorkspaceName e s"
| "fire e CreationJoined s = setTitle (getWindowTitle e s) s"
| "fire e (IntegrityChecked r) s = onIntegrityChecked e r s"
| "fire e ActiveInputChanged s = setTitle (getWindowTitle e s) s"
| "fire e (SetTitle t) s = setTitle t s"
| "fire e (SetRepresentedFilename p) s = setRepresentedFilename p s"
| "fire e CreateContentArea s = createContentArea s"

text \<open>A run: events in order, each with the answers of the services at its time.\<close>

fun run :: "(env \<times> event) list \<Rightarrow> titlebar \<Rightarrow> titlebar" where
  "run [] s = s"
| "run (x # xs) s = run xs (fire (fst x) (snd x) s)"

subsection \<open>A template resolver and an example environment\<close>

text \<open>
  Modelled from the spec: \<^verbatim>\<open>labels.template\<close> of \<^verbatim>\<open>vs/base/common/labels\<close> is not under
  src/. The spec's resolver replaces each placeholder occurrence \<^verbatim>\<open>{name}\<close> by its mapped
  value, verbatim and without scanning the value again; a placeholder with no mapped
  string renders empty; the separator renders only between two non-empty neighbours, so
  that no leading, trailing or doubled separator is left. The theorems below hold for
  every resolver; this one serves where a concrete one is needed.
\<close>

datatype segment = TEXT string | VARIABLE string | SEPARATOR string

fun segment_value :: "segment \<Rightarrow> string" where
  "segment_value (TEXT v) = v"
| "segment_value (VARIABLE v) = v"
| "segment_value (SEPARATOR v) = v"

fun is_separator :: "segment \<Rightarrow> bool" where
  "is_separator (SEPARATOR v) = True"
| "is_separator (TEXT v) = False"
| "is_separator (VARIABLE v) = False"

definition resolve :: "(string \<times> tvalue) list \<Rightarrow> string \<Rightarrow> segment list \<Rightarrow> segment list" where
  "resolve values key segments =
     (case map_of values key of
        Some (Str v) \<Rightarrow> if v \<noteq> [] then segments @ [VARIABLE v] else segments
      | Some (Separator l) \<Rightarrow>
          if segments \<noteq> [] \<and> is_separator (last segments) then segments
          else segments @ [SEPARATOR l]
      | Some Null \<Rightarrow> segments
      | None \<Rightarrow> segments)"

fun scan :: "(string \<times> tvalue) list \<Rightarrow> string \<Rightarrow> bool \<Rightarrow> string \<Rightarrow> segment list \<Rightarrow> segment list" where
  "scan values [] inVariable curVal segments =
     (if curVal \<noteq> [] \<and> \<not> inVariable then segments @ [TEXT curVal] else segments)"
| "scan values (c # cs) inVariable curVal segments =
     (if c = CHR ''{''
      then scan values cs True [] (if curVal \<noteq> [] then segments @ [TEXT curVal] else segments)
      else if c = CHR ''}'' \<and> inVariable
      then scan values cs False [] (resolve values curVal segments)
      else scan values cs inVariable (curVal @ [c]) segments)"

definition has_value :: "segment option \<Rightarrow> bool" where
  "has_value sg =
     (case sg of
        None \<Rightarrow> False
      | Some x \<Rightarrow> \<not> is_separator x \<and> segment_value x \<noteq> [])"

fun keep_separators :: "segment option \<Rightarrow> segment list \<Rightarrow> segment list" where
  "keep_separators left [] = []"
| "keep_separators left (x # xs) =
     (if is_separator x
         \<and> \<not> (has_value left \<and> has_value (case xs of [] \<Rightarrow> None | r # _ \<Rightarrow> Some r))
      then keep_separators (Some x) xs
      else x # keep_separators (Some x) xs)"

definition labels_template :: "string \<Rightarrow> (string \<times> tvalue) list \<Rightarrow> string" where
  "labels_template t values =
     concat (map segment_value (keep_separators None (scan values t False [] [])))"

text \<open>
  An example: a folder \<^verbatim>\<open>/proj\<close> is open, the active editor shows the dirty file
  \<^verbatim>\<open>/proj/src/a.txt\<close>, the application is called \<^verbatim>\<open>Editor\<close>, and the theme defines
  the active colours and the border. The resolver is the one above (an unset template
  is read as the empty one), \<^verbatim>\<open>getPathLabel\<close> answers the path of a resource.
\<close>

definition example_input :: editor_input where
  "example_input =
     \<lparr>input_id = 1, instanceof_EditorInput = True,
      getTitle = (\<lambda>v. case v of SHORT \<Rightarrow> ''a.txt'' | MEDIUM \<Rightarrow> ''src/a.txt''
                               | LONG \<Rightarrow> ''/proj/src/a.txt''),
      isDirty = True\<rparr>"

definition example_theme :: "color_id \<Rightarrow> string option" where
  "example_theme c =
     (case c of
        TITLE_BAR_ACTIVE_FOREGROUND \<Rightarrow> Some ''#333333''
      | TITLE_BAR_INACTIVE_FOREGROUND \<Rightarrow> Some ''#999999''
      | TITLE_BAR_ACTIVE_BACKGROUND \<Rightarrow> Some ''#dddddd''
      | TITLE_BAR_INACTIVE_BACKGROUND \<Rightarrow> Some ''#eeeeee''
      | TITLE_BAR_BORDER \<Rightarrow> Some ''#000000'')"

definition example_env :: env where
  "example_env =
     \<lparr>lookup_window_title = ''{dirty}{activeEditorShort}{separator}{rootName}'',
      getActiveEditor = Some \<lparr>input = Some example_input\<rparr>,
      getActiveEditorInput = Some example_input,
      getWorkspace = \<lparr>name = ''proj'', configuration = None, folders = [\<lparr>fsPath = ''/proj''\<rparr>]\<rparr>,
      getWorkbenchState = FOLDER,
      getWorkspaceFolder = (\<lambda>r. None),
      toResource = (\<lambda>i. None),
      getPathLabel = map_option fsPath,
      template = (\<lambda>t. labels_template (case t of None \<Rightarrow> [] | Some x \<Rightarrow> x)),
      appNameLong = ''Editor'',
      isExtensionDevelopment = False,
      getColor = example_theme,
      super_updateStyles = (\<lambda>c. c)\<rparr>"

text \<open>The same window with no editor open and no folder, and an empty template.\<close>

definition empty_env :: env where
  "empty_env =
     example_env\<lparr>lookup_window_title := [], getActiveEditor := None,
       getActiveEditorInput := None,
       getWorkspace := \<lparr>name = [], configuration = None, folders = []\<rparr>,
       getWorkbenchState := EMPTY\<rparr>"

subsection \<open>Reading a run and its trace\<close>

text \<open>
  Only \<^verbatim>\<open>setTitle\<close> writes the native title, and it does so on every call: the argument
  of the most recent call of \<^verbatim>\<open>setTitle\<close> is the last \<open>DocumentTitle\<close> of the trace.
\<close>

fun last_title :: "effect list \<Rightarrow> string option" where
  "last_title [] = None"
| "last_title (x # xs) =
     (case last_title xs of
        Some t \<Rightarrow> Some t
      | None \<Rightarrow> (case x of DocumentTitle t \<Rightarrow> Some t | _ \<Rightarrow> None))"

text \<open>How often a run calls \<^verbatim>\<open>createContentArea\<close>.\<close>

definition creations :: "(env \<times> event) list \<Rightarrow> nat" where
  "creations es = length (filter (\<lambda>x. snd x = CreateContentArea) es)"

text \<open>The listeners a trace has registered and not disposed of since.\<close>

fun live_step :: "listener multiset \<Rightarrow> effect \<Rightarrow> listener multiset" where
  "live_step m (Attach l) = add_mset l m"
| "live_step m (Dispose l) = m - {#l#}"
| "live_step m (DocumentTitle t) = m"
| "live_step m (TitleText t) = m"
| "live_step m (WindowRepresentedFilename p) = m"

definition live :: "effect list \<Rightarrow> listener multiset" where
  "live tr = foldl live_step {#} tr"

text \<open>
  Last write wins: once \<^verbatim>\<open>setTitle\<close> has been called, the native title is the argument
  of its most recent call, and so is the text of the title element, or, while there is no
  element, the pending title.
\<close>

definition shows_latest :: "titlebar \<Rightarrow> bool" where
  "shows_latest s =
     (case last_title (trace s) of
        None \<Rightarrow> True
      | Some t \<Rightarrow>
          document_title s = t
          \<and> (case title s of Some txt \<Rightarrow> txt = t | None \<Rightarrow> pendingTitle s = Some t))"

text \<open>
  Two more pieces of the example: the part once the base class holds a container with no
  inline style yet (\<^verbatim>\<open>Part.create\<close> is not under src/), and a second editor input, active
  in a second environment.
\<close>

definition with_container :: "titlebar \<Rightarrow> titlebar" where
  "with_container s = s\<lparr>container := Some (\<lambda>k. None)\<rparr>"

definition other_input :: editor_input where
  "other_input = example_input\<lparr>input_id := 2\<rparr>"

definition other_env :: env where
  "other_env =
     example_env\<lparr>getActiveEditor := Some \<lparr>input = Some other_input\<rparr>,
       getActiveEditorInput := Some other_input\<rparr>"

section \<open>Properties\<close>

subsection \<open>The fields after each method\<close>

lemma setTitle_fields:
  "document_title (setTitle t s) = t"
  "title (setTitle t s) = (case title s of None \<Rightarrow> None | Some x \<Rightarrow> Some t)"
  "pendingTitle (setTitle t s) = (case title s of None \<Rightarrow> Some t | Some x \<Rightarrow> pendingTitle s)"
  "trace (setTitle t s) =
     trace s @ DocumentTitle t # (case title s of None \<Rightarrow> [] | Some x \<Rightarrow> [TitleText t])"
  "representedFileName (setTitle t s) = representedFileName s"
  "isInactive (setTitle t s) = isInactive s"
  "titleTemplate (setTitle t s) = titleTemplate s"
  "isPure (setTitle t s) = isPure s"
  "activeEditorListeners (setTitle t s) = activeEditorListeners s"
  "container (setTitle t s) = container s"
  by (simp_all add: setTitle_def Let_def split: option.splits)

lemma construct_fields:
  "title (construct e d) = None"
  "pendingTitle (construct e d) = None"
  "representedFileName (construct e d) = None"
  "isInactive (construct e d) = None"
  "titleTemplate (construct e d) = Some (lookup_window_title e)"
  "isPure (construct e d) = True"
  "activeEditorListeners (construct e d) = []"
  "container (construct e d) = None"
  "document_title (construct e d) = d"
  "trace (construct e d) = []"
  by (simp_all add: construct_def init_def onConfigurationChanged_def Let_def)

lemma createContentArea_fields:
  "title (createContentArea s) = Some (case pendingTitle s of None \<Rightarrow> [] | Some p \<Rightarrow> p)"
  "trace (createContentArea s) =
     trace s @ (case pendingTitle s of
                  None \<Rightarrow> []
                | Some p \<Rightarrow> if p = [] then [] else [TitleText p])"
  "pendingTitle (createContentArea s) = pendingTitle s"
  "document_title (createContentArea s) = document_title s"
  "activeEditorListeners (createContentArea s) = activeEditorListeners s"
  "titleTemplate (createContentArea s) = titleTemplate s"
  "isPure (createContentArea s) = isPure s"
  by (simp_all add: createContentArea_def Let_def split: option.splits)

lemma updateStyles_fields:
  "title (updateStyles e s) = title s"
  "pendingTitle (updateStyles e s) = pendingTitle s"
  "document_title (updateStyles e s) = document_title s"
  "trace (updateStyles e s) = trace s"
  "activeEditorListeners (updateStyles e s) = activeEditorListeners s"
  "isInactive (updateStyles e s) = isInactive s"
  "titleTemplate (updateStyles e s) = titleTemplate s"
  "isPure (updateStyles e s) = isPure s"
  by (simp_all add: updateStyles_def Let_def split: option.splits)

lemma updateStyles_container:
  "container (updateStyles e s) =
     map_option (\<lambda>c. title_styles e (isInactive s = Some True) (super_updateStyles e c))
       (container s)"
  by (cases "container s") (simp_all add: updateStyles_def Let_def)

lemma representedFileName_set:
  "representedFileName (setRepresentedFilename p s) = Some p"
  by (simp add: setRepresentedFilename_def)

lemma getWindowTitle_state:
  "titleTemplate s = titleTemplate s' \<Longrightarrow> isPure s = isPure s' \<Longrightarrow>
   getWindowTitle e s = getWindowTitle e s'"
  by (simp add: getWindowTitle_def doGetWindowTitle_def)

lemma run_append: "run (es @ es') s = run es' (run es s)"
  by (induction es arbitrary: s) simp_all

subsection \<open>The context menu\<close>

lemma actions_of_abc:
  assumes "representedFileName s = Some ''/a/b/c.txt''"
  shows "getContextMenuActions s =
     [ShowItemInFolderAction ''/a/b/c.txt'' ''c.txt'',
      ShowItemInFolderAction ''/a/b/c.txt'' ''b'',
      ShowItemInFolderAction ''/a/b'' ''a'',
      ShowItemInFolderAction ''/a'' ''/'']"
  using assms
  by (simp add: getContextMenuActions_def sep_char_def sep_def segment_action_def
      arr_slice0_def basename_def dirname_def numeral_eq_Suc)

lemma actions_of_unset:
  assumes "representedFileName s = None \<or> representedFileName s = Some []"
  shows "getContextMenuActions s = []"
  using assms by (auto simp: getContextMenuActions_def)

text \<open>
  C1, as the code has it. The path \<^verbatim>\<open>/a/b/c.txt\<close> splits into four segments, the first
  of them empty, and the loop makes one action for each: four actions, deepest first,
  labelled \<^verbatim>\<open>c.txt\<close>, \<^verbatim>\<open>b\<close>, \<^verbatim>\<open>a\<close> and \<^verbatim>\<open>/\<close> (the root, whose base name is empty).
  The action of the file reveals the file; the action of a folder reveals the child of
  that folder on the path ("for segments which are not the file name we want to open the
  folder"), so the paths are \<^verbatim>\<open>/a/b/c.txt\<close>, \<^verbatim>\<open>/a/b/c.txt\<close>, \<^verbatim>\<open>/a/b\<close> and \<^verbatim>\<open>/a\<close>. With
  the represented path unset or empty there is no action. The number of actions and
  their paths do not depend on \<open>basename\<close> and \<open>dirname\<close>; the labels do.
\<close>

theorem getContextMenuActions_reveals_children:
  "(representedFileName s = Some ''/a/b/c.txt'' \<longrightarrow>
      getContextMenuActions s =
        [ShowItemInFolderAction ''/a/b/c.txt'' ''c.txt'',
         ShowItemInFolderAction ''/a/b/c.txt'' ''b'',
         ShowItemInFolderAction ''/a/b'' ''a'',
         ShowItemInFolderAction ''/a'' ''/''])
   \<and> (representedFileName s = None \<or> representedFileName s = Some [] \<longrightarrow>
      getContextMenuActions s = [])"
  using actions_of_abc actions_of_unset by blast

text \<open>The three cases of C1 at states the part reaches.\<close>

theorem getContextMenuActions_reveals_children_witness:
  "getContextMenuActions (setRepresentedFilename ''/a/b/c.txt'' (construct example_env [])) =
        [ShowItemInFolderAction ''/a/b/c.txt'' ''c.txt'',
         ShowItemInFolderAction ''/a/b/c.txt'' ''b'',
         ShowItemInFolderAction ''/a/b'' ''a'',
         ShowItemInFolderAction ''/a'' ''/'']
   \<and> getContextMenuActions (construct example_env []) = []
   \<and> getContextMenuActions (setRepresentedFilename [] (construct example_env [])) = []"
  using getContextMenuActions_reveals_children
      [of "setRepresentedFilename ''/a/b/c.txt'' (construct example_env [])"]
    getContextMenuActions_reveals_children [of "construct example_env []"]
    getContextMenuActions_reveals_children
      [of "setRepresentedFilename [] (construct example_env [])"]
  by (simp add: representedFileName_set construct_fields)

text \<open>
  C1 as the claim words it fails: for \<^verbatim>\<open>/a/b/c.txt\<close> the actions are not three actions
  labelled \<^verbatim>\<open>c.txt\<close>, \<^verbatim>\<open>b\<close>, \<^verbatim>\<open>a\<close> that reveal \<^verbatim>\<open>/a/b/c.txt\<close>, \<^verbatim>\<open>/a/b\<close>, \<^verbatim>\<open>/a\<close>.
\<close>

theorem getContextMenuActions_not_three_prefixes:
  "\<not> (map label (getContextMenuActions
            (setRepresentedFilename ''/a/b/c.txt'' (construct example_env [])))
        = [''c.txt'', ''b'', ''a'']
      \<and> map path (getContextMenuActions
            (setRepresentedFilename ''/a/b/c.txt'' (construct example_env [])))
        = [''/a/b/c.txt'', ''/a/b'', ''/a''])"
  by (simp add: actions_of_abc representedFileName_set)

subsection \<open>The composed title\<close>

lemma empty_env_title: "doGetWindowTitle empty_env (construct empty_env d) = []"
  by (simp add: doGetWindowTitle_def empty_env_def example_env_def labels_template_def
      construct_fields)

text \<open>
  C2. Whenever the template resolves to the empty string, the title is the long name
  of the application, with the decorations of C3 around it and nothing else; in a
  window that is pure and no extension development host it is the long name itself.
\<close>

theorem getWindowTitle_falls_back_to_appName:
  assumes "doGetWindowTitle e s = []"
  shows "getWindowTitle e s =
     (if isExtensionDevelopment e then ''[Extension Development Host] - '' else [])
     @ appNameLong e
     @ (if \<not> isPure s then '' [Unsupported]'' else [])"
  using assms
  by (simp add: getWindowTitle_def Let_def NLS_UNSUPPORTED_def NLS_EXTENSION_HOST_def)

text \<open>The example of C2: the empty template and the application name \<^verbatim>\<open>Editor\<close>.\<close>

theorem getWindowTitle_falls_back_to_appName_witness:
  "doGetWindowTitle empty_env (construct empty_env []) = []
   \<and> titleTemplate (construct empty_env []) = Some []
   \<and> appNameLong empty_env = ''Editor''
   \<and> getWindowTitle empty_env (construct empty_env []) = ''Editor''"
  using getWindowTitle_falls_back_to_appName [OF empty_env_title, of "[]"]
    empty_env_title [of "[]"]
  by (simp add: empty_env_def example_env_def construct_fields)

text \<open>
  C3. For every base title (the resolved template, or the application name in its
  place), the title is the base title, followed by a space and the marker
  \<^verbatim>\<open>[Unsupported]\<close> exactly when the part is not pure, and the result preceded by
  \<^verbatim>\<open>[Extension Development Host] - \<close> exactly when the window is an extension development
  host: the prefix is outermost. The part is not pure once the integrity check has
  answered so.
\<close>

theorem getWindowTitle_decorations:
  "getWindowTitle e s =
     (if isExtensionDevelopment e then ''[Extension Development Host] - '' else [])
     @ (if doGetWindowTitle e s = [] then appNameLong e else doGetWindowTitle e s)
     @ (if \<not> isPure s then '' '' @ ''[Unsupported]'' else [])
   \<and> isPure (onIntegrityChecked e' False s) = False"
  by (simp add: getWindowTitle_def Let_def NLS_UNSUPPORTED_def NLS_EXTENSION_HOST_def
      onIntegrityChecked_def setTitle_fields)

text \<open>Both decorations of C3 on the example with the empty template.\<close>

theorem getWindowTitle_decorations_witness:
  "getWindowTitle (empty_env\<lparr>isExtensionDevelopment := True\<rparr>)
      (onIntegrityChecked empty_env False (construct empty_env []))
     = ''[Extension Development Host] - Editor [Unsupported]''"
  using getWindowTitle_decorations [of "empty_env\<lparr>isExtensionDevelopment := True\<rparr>"
      "onIntegrityChecked empty_env False (construct empty_env [])" empty_env]
  by (simp add: doGetWindowTitle_def empty_env_def example_env_def labels_template_def
      onIntegrityChecked_def Let_def construct_fields setTitle_fields)

subsection \<open>Last write wins\<close>

lemma last_title_append:
  "last_title (xs @ ys) = (case last_title ys of Some t \<Rightarrow> Some t | None \<Rightarrow> last_title xs)"
  by (induction xs) (auto split: option.splits effect.splits)

lemma last_title_map_Attach: "last_title (map Attach ls) = None"
  by (induction ls) auto

lemma shows_latest_setTitle: "shows_latest (setTitle t s)"
  by (simp add: shows_latest_def last_title_append setTitle_fields split: option.splits)

lemma shows_latest_construct: "shows_latest (construct e d)"
  by (simp add: shows_latest_def construct_fields)

text \<open>\<^verbatim>\<open>onEditorsChanged\<close> is a call of \<^verbatim>\<open>setTitle\<close> followed by registrations.\<close>

lemma onEditorsChanged_setTitle:
  "\<exists>t s'. onEditorsChanged e s =
     (setTitle t s')\<lparr>activeEditorListeners := input_listeners (active_input e),
        trace := trace (setTitle t s') @ map Attach (input_listeners (active_input e))\<rparr>"
proof -
  let ?s' = "s\<lparr>trace := trace s @ map Dispose (activeEditorListeners s),
              activeEditorListeners := []\<rparr>"
  have "onEditorsChanged e s =
     (setTitle (getWindowTitle e ?s') ?s')
       \<lparr>activeEditorListeners := input_listeners (active_input e),
        trace := trace (setTitle (getWindowTitle e ?s') ?s')
                 @ map Attach (input_listeners (active_input e))\<rparr>"
    by (simp add: onEditorsChanged_def Let_def input_listeners_def setTitle_fields
        split: option.splits)
  then show ?thesis by blast
qed

text \<open>
  Every event keeps the invariant, \<^verbatim>\<open>createContentArea\<close> on condition that it creates
  the element, that is, that there is none yet.
\<close>

lemma shows_latest_fire:
  assumes "shows_latest s" and "ev = CreateContentArea \<longrightarrow> title s = None"
  shows "shows_latest (fire e ev s)"
proof (cases ev)
  case CreateContentArea
  with assms show ?thesis
    by (auto simp: shows_latest_def createContentArea_fields last_title_append
        split: option.splits if_splits)
next
  case EditorsChanged
  obtain t s' where eq: "onEditorsChanged e s =
     (setTitle t s')\<lparr>activeEditorListeners := input_listeners (active_input e),
        trace := trace (setTitle t s') @ map Attach (input_listeners (active_input e))\<rparr>"
    using onEditorsChanged_setTitle by blast
  show ?thesis using EditorsChanged
    by (simp add: eq shows_latest_def setTitle_fields last_title_append
        last_title_map_Attach split: option.splits)
next
  case (SetRepresentedFilename p)
  with assms show ?thesis
    by (auto simp: shows_latest_def setRepresentedFilename_def last_title_append
        split: option.splits)
qed (use assms in \<open>auto simp: shows_latest_setTitle onBlur_def onFocus_def
      onConfigurationChanged_def onDidChangeWorkspaceFolders_def onDidChangeWorkspaceName_def
      onIntegrityChecked_def Let_def shows_latest_def updateStyles_fields setTitle_fields
      last_title_append split: option.splits\<close>)

lemma title_fire:
  "ev \<noteq> CreateContentArea \<Longrightarrow> (title (fire e ev s) = None) = (title s = None)"
  by (cases ev) (auto simp: onBlur_def onFocus_def
      onConfigurationChanged_def onDidChangeWorkspaceFolders_def onDidChangeWorkspaceName_def
      onIntegrityChecked_def Let_def onEditorsChanged_def setRepresentedFilename_def
      updateStyles_fields setTitle_fields split: option.splits)

lemma creations_Cons:
  "creations (x # es) = (if snd x = CreateContentArea then Suc (creations es) else creations es)"
  by (simp add: creations_def)

lemma shows_latest_run:
  assumes "shows_latest s"
    and "creations es \<le> (if title s = None then 1 else 0)"
  shows "shows_latest (run es s)"
  using assms
proof (induction es arbitrary: s)
  case Nil
  then show ?case by simp
next
  case (Cons x es)
  show ?case
  proof (cases "snd x = CreateContentArea")
    case True
    with Cons.prems have t: "title s = None" and c: "creations es = 0"
      by (auto simp: creations_Cons split: if_splits)
    have "shows_latest (fire (fst x) (snd x) s)"
      using Cons.prems(1) t by (rule_tac shows_latest_fire) auto
    moreover have "title (fire (fst x) (snd x) s) \<noteq> None"
      using True by (simp add: createContentArea_fields)
    ultimately show ?thesis
      using Cons.IH [of "fire (fst x) (snd x) s"] c by simp
  next
    case False
    have "shows_latest (fire (fst x) (snd x) s)"
      using Cons.prems(1) False by (rule_tac shows_latest_fire) auto
    moreover have "(title (fire (fst x) (snd x) s) = None) = (title s = None)"
      using False by (rule title_fire)
    ultimately show ?thesis
      using Cons.IH [of "fire (fst x) (snd x) s"] Cons.prems(2) False
      by (simp add: creations_Cons)
  qed
qed

text \<open>
  The run must not call \<^verbatim>\<open>createContentArea\<close> twice: the pending title is never
  cleared, so a second call would put a new element in place that shows the title
  buffered before the first call, not the latest one.
\<close>

lemma second_creation_shows_stale_title:
  "title (run [(e, SetTitle ''a''), (e, CreateContentArea), (e, SetTitle ''b''),
        (e, CreateContentArea)] (construct e d)) = Some ''a''
   \<and> document_title (run [(e, SetTitle ''a''), (e, CreateContentArea), (e, SetTitle ''b''),
        (e, CreateContentArea)] (construct e d)) = ''b''"
  by (simp add: setTitle_fields createContentArea_fields construct_fields)

text \<open>
  C4, as the code has it. In every run of the constructed part that calls
  \<^verbatim>\<open>createContentArea\<close> at most once, as the creation of the part does, once \<^verbatim>\<open>setTitle\<close>
  has been called with \<open>t\<close> as its most recent argument, the native title is \<open>t\<close> and
  the title element, if it exists, shows \<open>t\<close>; while it does not exist, \<open>t\<close> is the
  pending title. A call of \<^verbatim>\<open>setTitle\<close> before the element exists buffers its argument.
  \<^verbatim>\<open>createContentArea\<close>, creating the element with \<open>p\<close> pending, leaves the element showing
  \<open>p\<close>; it writes \<open>p\<close> to the element once when \<open>p\<close> is not the empty string, and not at
  all when it is (\<^verbatim>\<open>if (this.pendingTitle)\<close>), the text of a new element being empty
  already.
\<close>

theorem title_last_write_wins:
  "(creations es \<le> 1 \<and> last_title (trace (run es (construct e d))) = Some t \<longrightarrow>
      document_title (run es (construct e d)) = t
      \<and> (case title (run es (construct e d)) of
           Some txt \<Rightarrow> txt = t
         | None \<Rightarrow> pendingTitle (run es (construct e d)) = Some t))
   \<and> last_title (trace (setTitle p s)) = Some p
   \<and> (title s = None \<longrightarrow>
        title (setTitle p s) = None \<and> pendingTitle (setTitle p s) = Some p)
   \<and> (title s = None \<and> pendingTitle s = Some p \<longrightarrow>
        title (createContentArea s) = Some p
        \<and> trace (createContentArea s) = trace s @ (if p = [] then [] else [TitleText p]))"
proof -
  have "shows_latest (run es (construct e d))" if "creations es \<le> 1"
    using shows_latest_run [OF shows_latest_construct, of es e d] that
    by (simp add: construct_fields)
  then show ?thesis
    by (auto simp: shows_latest_def last_title_append setTitle_fields
        createContentArea_fields split: option.splits)
qed

text \<open>
  C4 at a run that changes the editors, creates the element and sets a title, and at a
  title set before the element is created.
\<close>

theorem title_last_write_wins_witness:
  "creations [(example_env, EditorsChanged), (example_env, CreateContentArea),
       (example_env, SetTitle ''x'')] \<le> 1
   \<and> last_title (trace (run [(example_env, EditorsChanged), (example_env, CreateContentArea),
       (example_env, SetTitle ''x'')] (construct example_env []))) = Some ''x''
   \<and> document_title (run [(example_env, EditorsChanged), (example_env, CreateContentArea),
       (example_env, SetTitle ''x'')] (construct example_env [])) = ''x''
   \<and> title (run [(example_env, EditorsChanged), (example_env, CreateContentArea),
       (example_env, SetTitle ''x'')] (construct example_env [])) = Some ''x''
   \<and> title (construct example_env []) = None
   \<and> pendingTitle (setTitle ''y'' (construct example_env [])) = Some ''y''
   \<and> title (createContentArea (setTitle ''y'' (construct example_env []))) = Some ''y''
   \<and> trace (createContentArea (setTitle ''y'' (construct example_env [])))
       = [DocumentTitle ''y'', TitleText ''y'']"
  using title_last_write_wins
      [of "[(example_env, EditorsChanged), (example_env, CreateContentArea),
            (example_env, SetTitle ''x'')]"
        example_env "[]" "''x''" "''y''" "construct example_env []"]
    title_last_write_wins
      [of "[]" example_env "[]" "''x''" "''y''" "setTitle ''y'' (construct example_env [])"]
  by (simp add: creations_def onEditorsChanged_def Let_def setTitle_fields
      createContentArea_fields construct_fields last_title_append)

text \<open>
  C4 as the claim words it fails at the empty title: \<^verbatim>\<open>setTitle('')\<close> before the element
  exists buffers the empty string, and \<^verbatim>\<open>createContentArea\<close> then applies it to the element
  not once but never; the only effect of the two calls is the write of the native title.
\<close>

theorem empty_pending_title_not_written:
  "pendingTitle (setTitle [] (construct example_env [])) = Some []
   \<and> trace (createContentArea (setTitle [] (construct example_env []))) = [DocumentTitle []]"
  by (simp add: setTitle_fields createContentArea_fields construct_fields)

subsection \<open>The listeners of the active editor\<close>

lemma onEditorsChanged_trace:
  "trace (onEditorsChanged e s) =
     trace s @ map Dispose (activeEditorListeners s)
     @ (DocumentTitle (getWindowTitle e s)
        # (case title s of None \<Rightarrow> [] | Some x \<Rightarrow> [TitleText (getWindowTitle e s)]))
     @ map Attach (input_listeners (active_input e))"
proof -
  have "getWindowTitle e (s\<lparr>trace := trace s @ map Dispose (activeEditorListeners s),
          activeEditorListeners := []\<rparr>) = getWindowTitle e s"
    by (rule getWindowTitle_state) simp_all
  then show ?thesis
    by (simp add: onEditorsChanged_def Let_def input_listeners_def setTitle_fields
        split: option.splits)
qed

lemma onEditorsChanged_listeners:
  "activeEditorListeners (onEditorsChanged e s) = input_listeners (active_input e)"
  by (simp add: onEditorsChanged_def Let_def input_listeners_def setTitle_fields
      split: option.splits)

lemma listeners_fire:
  "ev \<noteq> EditorsChanged \<Longrightarrow> activeEditorListeners (fire e ev s) = activeEditorListeners s"
  by (cases ev) (auto simp: onBlur_def onFocus_def
      onConfigurationChanged_def onDidChangeWorkspaceFolders_def onDidChangeWorkspaceName_def
      onIntegrityChecked_def Let_def setRepresentedFilename_def updateStyles_fields
      setTitle_fields createContentArea_fields)

lemma listeners_run:
  "\<forall>x\<in>set es. snd x \<noteq> EditorsChanged \<Longrightarrow>
   activeEditorListeners (run es s) = activeEditorListeners s"
  by (induction es arbitrary: s) (simp_all add: listeners_fire)

lemma live_append: "live (xs @ ys) = foldl live_step (live xs) ys"
  by (simp add: live_def)

lemma foldl_Dispose: "foldl live_step m (map Dispose ls) = m - mset ls"
  by (induction ls arbitrary: m) simp_all

lemma foldl_Attach: "foldl live_step m (map Attach ls) = m + mset ls"
  by (induction ls arbitrary: m) simp_all

lemma live_fire_other:
  "ev \<noteq> EditorsChanged \<Longrightarrow> live (trace (fire e ev s)) = live (trace s)"
  by (cases ev) (auto simp: onBlur_def onFocus_def live_append
      onConfigurationChanged_def onDidChangeWorkspaceFolders_def onDidChangeWorkspaceName_def
      onIntegrityChecked_def Let_def setRepresentedFilename_def updateStyles_fields
      setTitle_fields createContentArea_fields split: option.splits)

lemma live_fire:
  assumes "live (trace s) = mset (activeEditorListeners s)"
  shows "live (trace (fire e ev s)) = mset (activeEditorListeners (fire e ev s))"
proof (cases "ev = EditorsChanged")
  case True
  have "live (trace (onEditorsChanged e s)) = mset (input_listeners (active_input e))"
    unfolding onEditorsChanged_trace
    by (cases "title s") (simp_all add: live_append foldl_Dispose foldl_Attach assms)
  then show ?thesis using True by (simp add: onEditorsChanged_listeners)
next
  case False
  then show ?thesis using assms by (simp add: live_fire_other listeners_fire)
qed

lemma live_run:
  "live (trace s) = mset (activeEditorListeners s) \<Longrightarrow>
   live (trace (run es s)) = mset (activeEditorListeners (run es s))"
  by (induction es arbitrary: s) (simp_all add: live_fire)

lemma other_env_listeners:
  "input_listeners (active_input other_env) = [DirtyListener 2, LabelListener 2]"
  by (simp add: input_listeners_def active_input_def other_env_def other_input_def
      example_input_def)

text \<open>
  C5. An editors-changed event disposes of every listener of \<^verbatim>\<open>activeEditorListeners\<close>,
  in order, then sets the title, and only then registers listeners: the dirty-changed and
  the label-changed listener of the active input when that is an \<^verbatim>\<open>EditorInput\<close>, none
  otherwise. After the event \<^verbatim>\<open>activeEditorListeners\<close> holds exactly these, and it still
  does after any further events that are not editors-changed events. In every run of the
  constructed part the listeners registered and not disposed of are exactly those in
  \<^verbatim>\<open>activeEditorListeners\<close>: none of an earlier editor stays behind.
\<close>

theorem onEditorsChanged_replaces_listeners:
  "trace (onEditorsChanged e s) =
     trace s @ map Dispose (activeEditorListeners s)
     @ (DocumentTitle (getWindowTitle e s)
        # (case title s of None \<Rightarrow> [] | Some x \<Rightarrow> [TitleText (getWindowTitle e s)]))
     @ map Attach (input_listeners (active_input e))
   \<and> activeEditorListeners (onEditorsChanged e s) = input_listeners (active_input e)
   \<and> ((\<forall>x\<in>set es'. snd x \<noteq> EditorsChanged) \<longrightarrow>
        activeEditorListeners (run (es @ (e, EditorsChanged) # es') s)
          = input_listeners (active_input e))
   \<and> live (trace (run es0 (construct e0 d)))
        = mset (activeEditorListeners (run es0 (construct e0 d)))"
proof -
  have "live (trace (construct e0 d)) = mset (activeEditorListeners (construct e0 d))"
    by (simp add: live_def construct_fields)
  then show ?thesis
    by (simp add: onEditorsChanged_trace onEditorsChanged_listeners run_append
        listeners_run live_run)
qed

text \<open>
  C5 at two switches in succession, to the first editor and then to the second, followed
  by a blur of the window: the two listeners of the second editor are left.
\<close>

theorem onEditorsChanged_replaces_listeners_witness:
  "activeEditorListeners (run [(example_env, EditorsChanged), (other_env, EditorsChanged),
       (other_env, WindowBlur)] (construct example_env []))
     = [DirtyListener 2, LabelListener 2]
   \<and> live (trace (run [(example_env, EditorsChanged), (other_env, EditorsChanged),
       (other_env, WindowBlur)] (construct example_env [])))
     = {#DirtyListener 2, LabelListener 2#}"
proof -
  have quiet: "\<forall>x\<in>set [(other_env, WindowBlur)]. snd x \<noteq> EditorsChanged"
    by simp
  note fact = onEditorsChanged_replaces_listeners
      [where e = other_env and s = "construct example_env []"
        and es' = "[(other_env, WindowBlur)]" and es = "[(example_env, EditorsChanged)]"
        and es0 = "[(example_env, EditorsChanged), (other_env, EditorsChanged),
           (other_env, WindowBlur)]"
        and ?e0.0 = example_env and d = "[]"]
  from fact quiet
  have "activeEditorListeners (run ([(example_env, EditorsChanged)]
            @ (other_env, EditorsChanged) # [(other_env, WindowBlur)])
          (construct example_env []))
        = input_listeners (active_input other_env)"
    by blast
  moreover from fact
  have "live (trace (run [(example_env, EditorsChanged), (other_env, EditorsChanged),
            (other_env, WindowBlur)] (construct example_env [])))
        = mset (activeEditorListeners (run [(example_env, EditorsChanged),
            (other_env, EditorsChanged), (other_env, WindowBlur)] (construct example_env [])))"
    by blast
  ultimately show ?thesis
    by (simp add: other_env_listeners)
qed

subsection \<open>What the title depends on\<close>

lemma setRepresentedFilename_fields:
  "titleTemplate (setRepresentedFilename p s) = titleTemplate s"
  "isPure (setRepresentedFilename p s) = isPure s"
  by (simp_all add: setRepresentedFilename_def)

lemma template_values_theme:
  "template_values (e\<lparr>getColor := g\<rparr>) = template_values e"
  by (simp add: template_values_def title_folder_def Let_def cong: option.case_cong)

text \<open>
  C6. \<^verbatim>\<open>getWindowTitle\<close> returns a string and changes no field. The string is determined
  by the template, the substitution values (the three names of the active editor, the
  dirty marker, the name and the path of the workspace root and of the folder, the
  application name, the separator), the application name, the integrity flag and the
  extension development flag, under one and the same resolver: two calls that agree on
  these return the same title, whatever else differs in the state of the part or in the
  answers of the services.
\<close>

theorem getWindowTitle_depends_on_inputs_only:
  assumes "titleTemplate s = titleTemplate s'"
    and "template_values e = template_values e'"
    and "appNameLong e = appNameLong e'"
    and "isPure s = isPure s'"
    and "isExtensionDevelopment e = isExtensionDevelopment e'"
    and "template e = template e'"
  shows "getWindowTitle e s = getWindowTitle e' s'"
  using assms by (simp add: getWindowTitle_def doGetWindowTitle_def Let_def)

text \<open>
  C6 at two states that differ in the native title, the pending title, the title element,
  the focus and the represented file, and at two environments that differ in the
  configuration value and the theme.
\<close>

theorem getWindowTitle_depends_on_inputs_only_witness:
  "getWindowTitle example_env (construct example_env ''old'')
     = getWindowTitle (example_env\<lparr>getColor := (\<lambda>c. None)\<rparr>)
         (createContentArea (setRepresentedFilename ''/a/b/c.txt'' (onBlur example_env
            (setTitle ''x'' (construct example_env [])))))"
proof (rule getWindowTitle_depends_on_inputs_only)
  show "titleTemplate (construct example_env ''old'')
      = titleTemplate (createContentArea (setRepresentedFilename ''/a/b/c.txt''
          (onBlur example_env (setTitle ''x'' (construct example_env [])))))"
    by (simp add: onBlur_def construct_fields createContentArea_fields
        setRepresentedFilename_fields updateStyles_fields setTitle_fields)
  show "template_values example_env
      = template_values (example_env\<lparr>getColor := (\<lambda>c. None)\<rparr>)"
    by (simp add: template_values_theme)
  show "isPure (construct example_env ''old'')
      = isPure (createContentArea (setRepresentedFilename ''/a/b/c.txt''
          (onBlur example_env (setTitle ''x'' (construct example_env [])))))"
    by (simp add: onBlur_def construct_fields createContentArea_fields
        setRepresentedFilename_fields updateStyles_fields setTitle_fields)
qed simp_all

subsection \<open>Absent values\<close>

text \<open>
  C7. With no active editor input the values of \<^verbatim>\<open>activeEditorShort\<close>,
  \<^verbatim>\<open>activeEditorMedium\<close>, \<^verbatim>\<open>activeEditorLong\<close> and \<^verbatim>\<open>dirty\<close> handed to the resolver are the
  empty string, and with no folder those of \<^verbatim>\<open>folderName\<close> and \<^verbatim>\<open>folderPath\<close> are. No
  value handed to the resolver is null or undefined when there is no folder, with or
  without an editor; when there is a folder, none is as long as \<^verbatim>\<open>getPathLabel\<close> answers
  a string for it, as its signature says.
\<close>

theorem absent_editor_and_folder_give_empty_values:
  "(getActiveEditorInput e = None \<longrightarrow>
      map_of (template_values e) ''activeEditorShort'' = Some (Str [])
      \<and> map_of (template_values e) ''activeEditorMedium'' = Some (Str [])
      \<and> map_of (template_values e) ''activeEditorLong'' = Some (Str [])
      \<and> map_of (template_values e) ''dirty'' = Some (Str []))
   \<and> (title_folder e = None \<longrightarrow>
      map_of (template_values e) ''folderName'' = Some (Str [])
      \<and> map_of (template_values e) ''folderPath'' = Some (Str []))
   \<and> (title_folder e = None \<or> getPathLabel e (title_folder e) \<noteq> None \<longrightarrow>
      Null \<notin> snd ` set (template_values e))"
  by (auto simp: template_values_def Let_def split: option.splits)

text \<open>
  C7 at the window with no editor and no folder, and at the example with a folder and
  its label.
\<close>

theorem absent_editor_and_folder_give_empty_values_witness:
  "getActiveEditorInput empty_env = None
   \<and> title_folder empty_env = None
   \<and> template_values empty_env =
       [(''activeEditorShort'', Str []), (''activeEditorLong'', Str []),
        (''activeEditorMedium'', Str []), (''rootName'', Str []), (''rootPath'', Str []),
        (''folderName'', Str []), (''folderPath'', Str []), (''dirty'', Str []),
        (''appName'', Str ''Editor''), (''separator'', Separator TITLE_SEPARATOR)]
   \<and> Null \<notin> snd ` set (template_values empty_env)
   \<and> title_folder example_env = Some \<lparr>fsPath = ''/proj''\<rparr>
   \<and> getPathLabel example_env (title_folder example_env) = Some ''/proj''
   \<and> Null \<notin> snd ` set (template_values example_env)"
  using absent_editor_and_folder_give_empty_values [of empty_env]
    absent_editor_and_folder_give_empty_values [of example_env]
  by (simp add: empty_env_def example_env_def title_folder_def template_values_def
      first_folder_def)

subsection \<open>Focus and styles\<close>

text \<open>
  C8, as the code has it. The constructed part is not inactive; a blur of the window
  makes it inactive and a focus makes it active, from any state. On each of the two
  events, when the base class holds a container, the container gets the foreground and
  the background of the new state and the bottom border of the theme, on top of what
  the hook of the base class has set; when there is no container yet
  (\<^verbatim>\<open>if (container)\<close>), the state changes and nothing is styled.
\<close>

theorem focus_styles_container_when_present:
  "isInactive (construct e d) \<noteq> Some True
   \<and> isInactive (onBlur e s) = Some True
   \<and> isInactive (onFocus e s) = Some False
   \<and> (container s = Some c \<longrightarrow>
        container (onBlur e s) = Some (title_styles e True (super_updateStyles e c))
        \<and> container (onFocus e s) = Some (title_styles e False (super_updateStyles e c)))
   \<and> (container s = None \<longrightarrow>
        container (onBlur e s) = None \<and> container (onFocus e s) = None)"
  by (simp add: onBlur_def onFocus_def updateStyles_container updateStyles_fields
      construct_fields)

text \<open>
  C8 on the example theme: the three properties, and one the part does not set, after a
  blur and after a focus of a part with a container, and a blur of a part without.
\<close>

theorem focus_styles_container_when_present_witness:
  "container (with_container (construct example_env [])) = Some (\<lambda>k. None)
   \<and> isInactive (onBlur example_env (with_container (construct example_env []))) = Some True
   \<and> map_option (\<lambda>c. map c [''color'', ''background-color'', ''border-bottom'', ''width''])
        (container (onBlur example_env (with_container (construct example_env []))))
      = Some [Some ''#999999'', Some ''#eeeeee'', Some ''1px solid #000000'', None]
   \<and> map_option (\<lambda>c. map c [''color'', ''background-color'', ''border-bottom'', ''width''])
        (container (onFocus example_env (with_container (construct example_env []))))
      = Some [Some ''#333333'', Some ''#dddddd'', Some ''1px solid #000000'', None]
   \<and> container (onBlur example_env (construct example_env [])) = None"
  using focus_styles_container_when_present
      [of example_env "[]" "with_container (construct example_env [])" "\<lambda>k. None"]
    focus_styles_container_when_present [of example_env "[]" "construct example_env []"]
  by (simp add: with_container_def title_styles_def Let_def example_env_def
      example_theme_def construct_fields)

text \<open>
  C8 as the claim words it fails before the container exists: a blur of the window
  right after the construction makes the part inactive and applies no colour to any
  container.
\<close>

theorem blur_without_container_styles_nothing:
  "isInactive (fire example_env WindowBlur (construct example_env [])) = Some True
   \<and> container (fire example_env WindowBlur (construct example_env [])) = None"
  by (simp add: onBlur_def updateStyles_container updateStyles_fields construct_fields)

subsection \<open>The native title and the configuration\<close>

text \<open>
  C9. Every call of \<^verbatim>\<open>setTitle\<close> makes its argument the native title of the window, as
  its first effect, whether the title element exists or not. When the element does not
  exist, that write is the only effect: the element is not touched and the argument
  becomes the pending title.
\<close>

theorem setTitle_writes_native_title:
  "document_title (setTitle t s) = t
   \<and> trace (setTitle t s) =
       trace s @ DocumentTitle t # (case title s of None \<Rightarrow> [] | Some x \<Rightarrow> [TitleText t])
   \<and> (title s = None \<longrightarrow>
        title (setTitle t s) = None \<and> pendingTitle (setTitle t s) = Some t)"
  by (simp add: setTitle_fields)

text \<open>C9 at the constructed part, which has no title element.\<close>

theorem setTitle_writes_native_title_witness:
  "title (construct example_env ''old'') = None
   \<and> document_title (setTitle ''Editor'' (construct example_env ''old'')) = ''Editor''
   \<and> trace (setTitle ''Editor'' (construct example_env ''old'')) = [DocumentTitle ''Editor'']
   \<and> title (setTitle ''Editor'' (construct example_env ''old'')) = None
   \<and> pendingTitle (setTitle ''Editor'' (construct example_env ''old'')) = Some ''Editor''"
  using setTitle_writes_native_title [of "''Editor''" "construct example_env ''old''"]
  by (simp add: construct_fields)

text \<open>
  C10. A configuration update that looks up the template the part already stores leaves
  the whole state as it is: the stored template is overwritten by an equal value and
  \<^verbatim>\<open>setTitle\<close> is not called, a call of which always extends the trace. The read of the
  configuration at construction changes the stored template and nothing else, so the
  constructed part has an empty trace and the native title the window had.
\<close>

theorem unchanged_template_sets_no_title:
  "(titleTemplate s = Some (lookup_window_title e) \<longrightarrow>
      fire e DidUpdateConfiguration s = s)
   \<and> trace (setTitle t s) \<noteq> trace s
   \<and> init e s = s\<lparr>titleTemplate := Some (lookup_window_title e)\<rparr>
   \<and> construct e d =
       \<lparr>title = None, pendingTitle = None, representedFileName = None,
        isInactive = None, titleTemplate = Some (lookup_window_title e), isPure = True,
        activeEditorListeners = [], container = None, document_title = d, trace = []\<rparr>"
  by (auto simp: onConfigurationChanged_def Let_def construct_def init_def setTitle_fields)

text \<open>C10 at a configuration update right after the construction.\<close>

theorem unchanged_template_sets_no_title_witness:
  "titleTemplate (construct example_env ''old'') = Some (lookup_window_title example_env)
   \<and> fire example_env DidUpdateConfiguration (construct example_env ''old'')
       = construct example_env ''old''
   \<and> document_title (fire example_env DidUpdateConfiguration (construct example_env ''old''))
       = ''old''
   \<and> trace (fire example_env DidUpdateConfiguration (construct example_env ''old'')) = []"
  using unchanged_template_sets_no_title
      [of "construct example_env ''old''" example_env "[]" "''old''"]
  by (simp add: construct_fields)

end
